theory Spec2Isabelle
  imports Main
begin

section \<open>Strings\<close>

text \<open>
  Go strings are byte sequences; they are modelled as \<open>string\<close>. The functions of
  package \<open>strings\<close> that the alarm logic calls are modelled on the ASCII range, where
  Go's case mapping touches the letters A-Z and a-z only and \<open>TrimSpace\<close> removes
  tab, line feed, vertical tab, form feed, carriage return and space. Bytes outside
  ASCII are left alone by the model, where Go folds and trims Unicode as well; the
  theorems below use no property of these functions on such strings, only their values
  on the ASCII names of the examples.
\<close>

definition upperLetters :: string where
  "upperLetters = ''ABCDEFGHIJKLMNOPQRSTUVWXYZ''"

definition lowerLetters :: string where
  "lowerLetters = ''abcdefghijklmnopqrstuvwxyz''"

definition toLowerChar :: "char \<Rightarrow> char" where
  "toLowerChar c =
     (case map_of (zip upperLetters lowerLetters) c of Some d \<Rightarrow> d | None \<Rightarrow> c)"

definition toUpperChar :: "char \<Rightarrow> char" where
  "toUpperChar c =
     (case map_of (zip lowerLetters upperLetters) c of Some d \<Rightarrow> d | None \<Rightarrow> c)"

definition ToLower :: "string \<Rightarrow> string" where
  "ToLower s = map toLowerChar s"

definition ToUpper :: "string \<Rightarrow> string" where
  "ToUpper s = map toUpperChar s"

definition isSpace :: "char \<Rightarrow> bool" where
  "isSpace c = (c \<in> set [CHR 0x09, CHR 0x0A, CHR 0x0B, CHR 0x0C, CHR 0x0D, CHR '' ''])"

definition TrimSpace :: "string \<Rightarrow> string" where
  "TrimSpace s = rev (dropWhile isSpace (rev (dropWhile isSpace s)))"

definition EqualFold :: "string \<Rightarrow> string \<Rightarrow> bool" where
  "EqualFold s t = (ToLower s = ToLower t)"

section \<open>Data model (model.go)\<close>

text \<open>
  \<open>Zone\<close>, \<open>ArmMode\<close>, \<open>AlertConfig\<close> and \<open>Config\<close> with the fields the alarm logic
  reads, in the version of model.go that has the \<open>Mode\<close> of a zone and the \<open>Alerts\<close> of
  the configuration, which sensor.go and server.go use. A Go slice can be \<open>nil\<close>, and \<open>handleArm\<close> tests for it, so \<open>ActiveZones\<close> is an
  optional list: \<open>None\<close> is the nil slice (JSON \<open>null\<close> or an absent field), \<open>Some []\<close>
  the empty one. The field \<open>Name\<close> of \<open>ArmMode\<close> is called \<open>ProfileName\<close> and the field
  \<open>Type\<close> of \<open>AlertConfig\<close> is called \<open>AlertType\<close>, since \<open>Zone\<close> has fields with these
  names already.
\<close>

record Zone =
  ID :: int
  Name :: string
  Type :: string
  Pin :: int
  Enabled :: bool
  Mode :: string

record ArmMode =
  ProfileName :: string
  ActiveZones :: "int list option"

record AlertConfig =
  AlertType :: string
  SMTPServer :: string
  SMTPPort :: int
  Username :: string
  Password :: string
  From :: string
  To :: string
  Subject :: string

record Config =
  Zones :: "Zone list"
  ArmModes :: "ArmMode list"
  Alerts :: "AlertConfig list"

section \<open>Zone trigger interpreter (sensor.go)\<close>

text \<open>
  \<open>zoneTriggered\<close> reads the pin of the zone through \<open>readPin\<close> (hal.go, or the
  hardware build) and interprets the level by the zone's mode. The hardware read is
  the parameter \<open>readPin\<close>.
\<close>

definition zoneTriggered :: "(int \<Rightarrow> bool) \<Rightarrow> Zone \<Rightarrow> bool" where
  "zoneTriggered readPin z =
     (let state = readPin (Pin z); m = ToUpper (Mode z) in
      if m = ''NC'' then \<not> state
      else if m = ''NO'' then state
      else if m = ''EOL'' then state
      else state)"

text \<open>
  The reference table of the specification: the three wiring modes, the activation of
  each at a raw level, and the reading of a configured mode string, where everything
  that is not recognised is normally open.
\<close>

datatype WiringMode = NormallyOpen | NormallyClosed | EndOfLine

fun activated :: "bool \<Rightarrow> WiringMode \<Rightarrow> bool" where
  "activated rawLevel NormallyClosed = (\<not> rawLevel)"
| "activated rawLevel NormallyOpen = rawLevel"
| "activated rawLevel EndOfLine = rawLevel"

definition wiringMode :: "string \<Rightarrow> WiringMode" where
  "wiringMode m =
     (if ToUpper m = ''NC'' then NormallyClosed
      else if ToUpper m = ''EOL'' then EndOfLine
      else NormallyOpen)"

section \<open>Alert handlers (AlertHandler, LogAlert, EmailAlert and initAlertHandlers)\<close>

text \<open>
  \<open>LogAlert\<close> and \<open>EmailAlert\<close>; the arguments of \<open>EmailAlert\<close> are SMTPServer, SMTPPort,
  Username, Password, From, To and Subject.
\<close>

datatype AlertHandler =
  LogAlert
| EmailAlert string int string string string string string

fun HandlerName :: "AlertHandler \<Rightarrow> string" where
  "HandlerName LogAlert = ''log''"
| "HandlerName (EmailAlert srv port usr pw frm to subj) = ''email''"

text \<open>
  \<open>Send\<close> returns \<open>None\<close> for Go's nil error and \<open>Some cause\<close> for a failure.
  \<open>LogAlert.Send\<close> writes a line to the event log and always returns nil;
  \<open>EmailAlert.Send\<close> returns what \<open>smtp.SendMail\<close> returns, which is the parameter
  \<open>sendMail\<close>.
\<close>

fun Send :: "(AlertHandler \<Rightarrow> Zone \<Rightarrow> string option) \<Rightarrow> AlertHandler \<Rightarrow> Zone \<Rightarrow> string option" where
  "Send sendMail LogAlert zone = None"
| "Send sendMail (EmailAlert srv port usr pw frm to subj) zone =
     sendMail (EmailAlert srv port usr pw frm to subj) zone"

fun buildHandlers :: "AlertConfig list \<Rightarrow> AlertHandler list" where
  "buildHandlers [] = []"
| "buildHandlers (ac # acs) =
     (let t = ToLower (AlertType ac) in
      if t = ''log'' then LogAlert # buildHandlers acs
      else if t = ''email'' then
        EmailAlert (SMTPServer ac) (SMTPPort ac) (Username ac) (Password ac)
          (From ac) (To ac) (Subject ac) # buildHandlers acs
      else buildHandlers acs)"

definition initAlertHandlers :: "Config \<Rightarrow> AlertHandler list" where
  "initAlertHandlers cfg =
     (if length (Alerts cfg) = 0 then [LogAlert]
      else let handlers = buildHandlers (Alerts cfg) in
        if length handlers = 0 then [LogAlert] else handlers)"

text \<open>
  The handler that \<open>initAlertHandlers\<close> builds from one alert configuration: none for
  a type that is neither \<open>log\<close> nor \<open>email\<close>.
\<close>

definition handlerOf :: "AlertConfig \<Rightarrow> AlertHandler option" where
  "handlerOf ac =
     (if ToLower (AlertType ac) = ''log'' then Some LogAlert
      else if ToLower (AlertType ac) = ''email'' then
        Some (EmailAlert (SMTPServer ac) (SMTPPort ac) (Username ac) (Password ac)
          (From ac) (To ac) (Subject ac))
      else None)"

section \<open>Server state and observable events (server.go)\<close>

text \<open>
  The fields of \<open>Server\<close> that the alarm logic owns. \<open>triggered\<close> is Go's
  \<open>map[int]bool\<close>; reading a key that is absent gives \<open>false\<close>, which is \<open>latched\<close>.
\<close>

record Server =
  currentMode :: string
  triggered :: "int \<rightharpoonup> bool"
  testMode :: int
  alerts :: "AlertHandler list"

definition latched :: "Server \<Rightarrow> int \<Rightarrow> bool" where
  "latched s zid = (case triggered s zid of None \<Rightarrow> False | Some b \<Rightarrow> b)"

text \<open>
  What a handler or a poll tick does besides changing the state: the records it writes
  to the event log, the pins it reads and the alert handlers it invokes, in order.
\<close>

datatype Event =
  LogArm string string
| LogDisarm string
| LogTrigger int string
| LogTestTrigger int string string
| LogHandlerError string string
| ReadPin int
| AlertSend AlertHandler Zone

datatype Response = NoContent | HttpError string nat

text \<open>
  The state that \<open>NewServer\<close> builds, when \<open>initGPIO\<close> has succeeded. The poll loop it
  starts is \<open>pollSensors\<close> below.
\<close>

definition NewServer :: "Config \<Rightarrow> Server" where
  "NewServer cfg =
     \<lparr>currentMode = ''Disarmed'', triggered = Map.empty, testMode = 0,
      alerts = initAlertHandlers cfg\<rparr>"

text \<open>
  The loop over the alert handlers that \<open>pollSensors\<close> and \<open>handleTestTrigger\<close> both
  contain: every handler is invoked, an error is logged and the loop goes on.
\<close>

fun dispatch :: "(AlertHandler \<Rightarrow> Zone \<Rightarrow> string option) \<Rightarrow> AlertHandler list \<Rightarrow> Zone \<Rightarrow> Event list" where
  "dispatch sendMail [] zone = []"
| "dispatch sendMail (h # hs) zone =
     (case Send sendMail h zone of
        None \<Rightarrow> AlertSend h zone # dispatch sendMail hs zone
      | Some err \<Rightarrow>
          AlertSend h zone # LogHandlerError (HandlerName h) err # dispatch sendMail hs zone)"

text \<open>The search for a zone by ID: the first zone of the list with that ID, or nil.\<close>

fun findZone :: "Zone list \<Rightarrow> int \<Rightarrow> Zone option" where
  "findZone [] zid = None"
| "findZone (z # zs) zid = (if ID z = zid then Some z else findZone zs zid)"

text \<open>
  The search for an arm mode by name, in \<open>handleArm\<close> and in \<open>pollSensors\<close>: the
  \<open>ActiveZones\<close> of the first mode whose name matches, or nil.
\<close>

fun lookupActiveZones :: "ArmMode list \<Rightarrow> string \<Rightarrow> int list option" where
  "lookupActiveZones [] mode = None"
| "lookupActiveZones (am # ams) mode =
     (if EqualFold (ProfileName am) mode then ActiveZones am
      else lookupActiveZones ams mode)"

subsection \<open>handleArm and handleDisarm\<close>

text \<open>
  A request is its method, its decoded JSON body (\<open>None\<close> when decoding fails) and the
  name of the authenticated user.

  Every successful branch of \<open>handleArm\<close>, and \<open>handleDisarm\<close>, assigns \<open>currentMode\<close> and
  \<open>testMode\<close> and replaces \<open>triggered\<close> by a new empty map; \<open>clearTo\<close> is these three
  assignments. The lines that the handlers print through the standard logger are not
  part of the model; the records of the event logger are.
\<close>

definition clearTo :: "Server \<Rightarrow> string \<Rightarrow> int \<Rightarrow> Server" where
  "clearTo s m t = s\<lparr>currentMode := m, testMode := t, triggered := Map.empty\<rparr>"

definition handleArm ::
  "Config \<Rightarrow> Server \<Rightarrow> string \<Rightarrow> string option \<Rightarrow> string \<Rightarrow> Response \<times> Server \<times> Event list" where
  "handleArm cfg s method body user =
     (if method \<noteq> ''POST'' then (HttpError ''method not allowed'' 405, s, [])
      else case body of
        None \<Rightarrow> (HttpError ''invalid JSON'' 400, s, [])
      | Some reqMode \<Rightarrow>
          (let mode = TrimSpace reqMode; lower = ToLower mode in
           if lower = ''testsoft'' \<or> lower = ''test soft'' then
             (NoContent, clearTo s ''TestSoft'' 1, [LogArm ''TestSoft'' user])
           else if lower = ''testwiring'' \<or> lower = ''test wiring'' then
             (NoContent, clearTo s ''TestWiring'' 2, [LogArm ''TestWiring'' user])
           else case lookupActiveZones (ArmModes cfg) mode of
             None \<Rightarrow> (HttpError ''unknown arm mode'' 400, s, [])
           | Some activeZones \<Rightarrow> (NoContent, clearTo s mode 0, [LogArm mode user])))"

definition handleDisarm :: "Server \<Rightarrow> string \<Rightarrow> string \<Rightarrow> Response \<times> Server \<times> Event list" where
  "handleDisarm s method user =
     (if method \<noteq> ''POST'' then (HttpError ''method not allowed'' 405, s, [])
      else (NoContent, clearTo s ''Disarmed'' 0, [LogDisarm user]))"

subsection \<open>handleTestTrigger\<close>

definition handleTestTrigger ::
  "Config \<Rightarrow> (AlertHandler \<Rightarrow> Zone \<Rightarrow> string option) \<Rightarrow> Server \<Rightarrow> string \<Rightarrow> int option \<Rightarrow> string
     \<Rightarrow> Response \<times> Server \<times> Event list" where
  "handleTestTrigger cfg sendMail s method body user =
     (if method \<noteq> ''POST'' then (HttpError ''method not allowed'' 405, s, [])
      else if testMode s \<noteq> 1 then (HttpError ''not in TestSoft mode'' 400, s, [])
      else case body of
        None \<Rightarrow> (HttpError ''invalid JSON'' 400, s, [])
      | Some zoneID \<Rightarrow>
          (case findZone (Zones cfg) zoneID of
             None \<Rightarrow> (HttpError ''zone not found'' 404, s, [])
           | Some zone \<Rightarrow>
               if \<not> latched s (ID zone) then
                 (NoContent,
                  s\<lparr>triggered := (triggered s)(ID zone \<mapsto> True)\<rparr>,
                  LogTestTrigger (ID zone) (Name zone) user # dispatch sendMail (alerts s) zone)
               else (NoContent, s, [])))"

subsection \<open>pollSensors\<close>

text \<open>
  One iteration of the endless loop of \<open>pollSensors\<close>, after its sleep. \<open>pollZone\<close> is
  the body of the inner loop over \<open>activeIDs\<close> and \<open>pollZones\<close> that loop; the levels
  of the pins during the tick are \<open>readPin\<close>.
\<close>

definition pollZone ::
  "Config \<Rightarrow> (int \<Rightarrow> bool) \<Rightarrow> (AlertHandler \<Rightarrow> Zone \<Rightarrow> string option) \<Rightarrow> Server \<Rightarrow> int
     \<Rightarrow> Server \<times> Event list" where
  "pollZone cfg readPin sendMail s zid =
     (case findZone (Zones cfg) zid of
        None \<Rightarrow> (s, [])
      | Some zone \<Rightarrow>
          if \<not> Enabled zone then (s, [])
          else if zoneTriggered readPin zone then
            (if \<not> latched s (ID zone) then
               (s\<lparr>triggered := (triggered s)(ID zone \<mapsto> True)\<rparr>,
                ReadPin (Pin zone) # LogTrigger (ID zone) (Name zone) #
                  (if testMode s = 0 then dispatch sendMail (alerts s) zone else []))
             else (s, [ReadPin (Pin zone)]))
          else (s, [ReadPin (Pin zone)]))"

fun pollZones ::
  "Config \<Rightarrow> (int \<Rightarrow> bool) \<Rightarrow> (AlertHandler \<Rightarrow> Zone \<Rightarrow> string option) \<Rightarrow> Server \<Rightarrow> int list
     \<Rightarrow> Server \<times> Event list" where
  "pollZones cfg readPin sendMail s [] = (s, [])"
| "pollZones cfg readPin sendMail s (zid # ids) =
     (let (s1, e1) = pollZone cfg readPin sendMail s zid;
          (s2, e2) = pollZones cfg readPin sendMail s1 ids
      in (s2, e1 @ e2))"

definition nilToEmpty :: "int list option \<Rightarrow> int list" where
  "nilToEmpty ids = (case ids of None \<Rightarrow> [] | Some xs \<Rightarrow> xs)"

definition activeIDs :: "Config \<Rightarrow> Server \<Rightarrow> int list" where
  "activeIDs cfg s =
     (if testMode s = 2 then map ID (Zones cfg)
      else nilToEmpty (lookupActiveZones (ArmModes cfg) (currentMode s)))"

definition pollSensors ::
  "Config \<Rightarrow> (int \<Rightarrow> bool) \<Rightarrow> (AlertHandler \<Rightarrow> Zone \<Rightarrow> string option) \<Rightarrow> Server \<Rightarrow> Server \<times> Event list" where
  "pollSensors cfg readPin sendMail s =
     (if currentMode s = ''Disarmed'' \<or> testMode s = 1 then (s, [])
      else pollZones cfg readPin sendMail s (activeIDs cfg s))"

subsection \<open>handleStatus\<close>

text \<open>
  The status response: the mode, the IDs whose flag is set (Go ranges over the map in
  no fixed order, so they are a set here) and the zones, each with its \<open>Active\<close> flag.
  The arguments of \<open>ZoneInfo\<close> are ID, Name, Type, Pin, Enabled and Active.

  \<open>handleStatus\<close> takes no lock. It reads \<open>s.triggered\<close> in its two loops and
  \<open>s.currentMode\<close> afterwards, when it builds the response; \<open>handleStatusAt\<close> is the
  response when the server is in state \<open>sLoops\<close> during the loops and in state \<open>sMode\<close>
  at the later read. With no other request in between, both are the same state.
\<close>

datatype ZoneInfo = ZoneInfo int string string int bool bool

record Status =
  StatusMode :: string
  StatusTriggered :: "int set"
  StatusZones :: "ZoneInfo list"

definition handleStatusAt :: "Config \<Rightarrow> Server \<Rightarrow> Server \<Rightarrow> Status" where
  "handleStatusAt cfg sLoops sMode =
     \<lparr>StatusMode = currentMode sMode,
      StatusTriggered = {zid. latched sLoops zid},
      StatusZones =
        map (\<lambda>z. ZoneInfo (ID z) (Name z) (Type z) (Pin z) (Enabled z) (latched sLoops (ID z)))
          (Zones cfg)\<rparr>"

definition handleStatus :: "Config \<Rightarrow> Server \<Rightarrow> Status" where
  "handleStatus cfg s = handleStatusAt cfg s s"

section \<open>Operating state, sessions and reachable states\<close>

text \<open>
  What the poll loop does with an ID of its active list: \<open>polled\<close> is the zone it
  goes on with, none when no zone has the ID or the zone is not enabled, and \<open>fires\<close>
  tells whether the interpreter reports that zone as activated.
\<close>

definition polled :: "Config \<Rightarrow> int \<Rightarrow> Zone option" where
  "polled cfg zid =
     (case findZone (Zones cfg) zid of
        None \<Rightarrow> None
      | Some zone \<Rightarrow> if Enabled zone then Some zone else None)"

definition fires :: "Config \<Rightarrow> (int \<Rightarrow> bool) \<Rightarrow> int \<Rightarrow> bool" where
  "fires cfg readPin zid =
     (case polled cfg zid of None \<Rightarrow> False | Some zone \<Rightarrow> zoneTriggered readPin zone)"

text \<open>
  The operating state that the server's fields stand for, read the way \<open>pollSensors\<close>
  reads them: \<open>currentMode\<close> compared with \<open>Disarmed\<close> first, then \<open>testMode\<close>.
\<close>

datatype OperatingState = Disarmed | Armed string | TestSoft | TestWiring

definition opState :: "Server \<Rightarrow> OperatingState" where
  "opState s =
     (if currentMode s = ''Disarmed'' then Disarmed
      else if testMode s = 1 then TestSoft
      else if testMode s = 2 then TestWiring
      else Armed (currentMode s))"

text \<open>
  The two fields agree in every state the handlers produce: \<open>testMode\<close> is 1 exactly
  with the mode name \<open>TestSoft\<close>, 2 exactly with \<open>TestWiring\<close>, and 0 otherwise.
\<close>

definition consistent :: "Server \<Rightarrow> bool" where
  "consistent s =
     ((testMode s = 1 \<and> currentMode s = ''TestSoft'')
      \<or> (testMode s = 2 \<and> currentMode s = ''TestWiring'')
      \<or> (testMode s = 0 \<and> currentMode s \<noteq> ''TestSoft'' \<and> currentMode s \<noteq> ''TestWiring''))"

text \<open>The error kinds of the specification, as the responses that carry them.\<close>

definition UnknownProfile :: Response where
  "UnknownProfile = HttpError ''unknown arm mode'' 400"

definition NotInTestSoftMode :: Response where
  "NotInTestSoftMode = HttpError ''not in TestSoft mode'' 400"

definition UnknownZone :: Response where
  "UnknownZone = HttpError ''zone not found'' 404"

text \<open>
  A session is a sequence of poll ticks and manual trigger requests with no arm or
  disarm request between them. Each poll tick comes with the pin levels and the mail
  outcomes of its moment, each trigger request with its method, body and user.
\<close>

datatype Step =
  PollTick "int \<Rightarrow> bool" "AlertHandler \<Rightarrow> Zone \<Rightarrow> string option"
| ManualTrigger "AlertHandler \<Rightarrow> Zone \<Rightarrow> string option" string "int option" string

fun step :: "Config \<Rightarrow> Server \<Rightarrow> Step \<Rightarrow> Server \<times> Event list" where
  "step cfg s (PollTick readPin sendMail) = pollSensors cfg readPin sendMail s"
| "step cfg s (ManualTrigger sendMail method body user) =
     snd (handleTestTrigger cfg sendMail s method body user)"

fun run :: "Config \<Rightarrow> Server \<Rightarrow> Step list \<Rightarrow> Server \<times> Event list" where
  "run cfg s [] = (s, [])"
| "run cfg s (x # xs) =
     (let (s1, e1) = step cfg s x; (s2, e2) = run cfg s1 xs in (s2, e1 @ e2))"

text \<open>
  The states the server can be in: the initial one, and what the handlers and the poll
  ticks make of a reachable one, under any configuration of the moment.
\<close>

inductive reachable :: "Server \<Rightarrow> bool" where
  reach_init: "reachable (NewServer cfg)"
| reach_arm: "reachable s \<Longrightarrow> reachable (fst (snd (handleArm cfg s method body user)))"
| reach_disarm: "reachable s \<Longrightarrow> reachable (fst (snd (handleDisarm s method user)))"
| reach_step: "reachable s \<Longrightarrow> reachable (fst (step cfg s x))"

text \<open>A step of a session latches a zone afresh when the latch was unset before it and is
  set after it.\<close>

definition fresh :: "Config \<Rightarrow> Server \<Rightarrow> Step \<Rightarrow> int \<Rightarrow> bool" where
  "fresh cfg s x z = (\<not> latched s z \<and> latched (fst (step cfg s x)) z)"

text \<open>Events that tell of a latch being set for a zone, or of an alert sent for it.\<close>

fun latchRecord :: "int \<Rightarrow> Event \<Rightarrow> bool" where
  "latchRecord zid (LogTrigger i n) = (i = zid)"
| "latchRecord zid (LogTestTrigger i n u) = (i = zid)"
| "latchRecord zid e = False"

fun alertFor :: "int \<Rightarrow> Event \<Rightarrow> bool" where
  "alertFor zid (AlertSend h zone) = (ID zone = zid)"
| "alertFor zid e = False"

fun isSend :: "Event \<Rightarrow> bool" where
  "isSend (AlertSend h zone) = True"
| "isSend e = False"

fun isReadPin :: "Event \<Rightarrow> bool" where
  "isReadPin (ReadPin p) = True"
| "isReadPin e = False"

fun isTriggerRecord :: "Event \<Rightarrow> bool" where
  "isTriggerRecord (LogTrigger i n) = True"
| "isTriggerRecord e = False"

section \<open>Example configuration\<close>

text \<open>
  The scenario of the specification: zone 1 normally closed, zone 2 normally open,
  profiles Away with zones 1 and 2 and Home with zone 1, an email and a log channel;
  and, beyond it, a third zone that is disabled and a profile Night whose zone list is
  nil.
\<close>

definition zone1 :: Zone where
  "zone1 = \<lparr>ID = 1, Name = ''Front Door'', Type = ''contact'', Pin = 17, Enabled = True, Mode = ''NC''\<rparr>"

definition zone2 :: Zone where
  "zone2 = \<lparr>ID = 2, Name = ''Hall'', Type = ''pir'', Pin = 27, Enabled = True, Mode = ''NO''\<rparr>"

definition zone3 :: Zone where
  "zone3 = \<lparr>ID = 3, Name = ''Garage'', Type = ''contact'', Pin = 22, Enabled = False, Mode = ''NO''\<rparr>"

definition mailAlert :: AlertConfig where
  "mailAlert = \<lparr>AlertType = ''email'', SMTPServer = ''mail.local'', SMTPPort = 25,
     Username = ''minder'', Password = ''secret'', From = ''minder@local'',
     To = ''owner@local'', Subject = ''Alarm''\<rparr>"

definition logAlert :: AlertConfig where
  "logAlert = \<lparr>AlertType = ''log'', SMTPServer = [], SMTPPort = 0,
     Username = [], Password = [], From = [], To = [], Subject = []\<rparr>"

definition exampleConfig :: Config where
  "exampleConfig =
     \<lparr>Zones = [zone1, zone2, zone3],
      ArmModes = [\<lparr>ProfileName = ''Away'', ActiveZones = Some [1, 2]\<rparr>,
                  \<lparr>ProfileName = ''Home'', ActiveZones = Some [1]\<rparr>,
                  \<lparr>ProfileName = ''Night'', ActiveZones = None\<rparr>],
      Alerts = [mailAlert, logAlert]\<rparr>"

definition mailHandler :: AlertHandler where
  "mailHandler =
     EmailAlert ''mail.local'' 25 ''minder'' ''secret'' ''minder@local'' ''owner@local'' ''Alarm''"

definition mailDown :: "AlertHandler \<Rightarrow> Zone \<Rightarrow> string option" where
  "mailDown h zone = Some ''connection refused''"

definition mailUp :: "AlertHandler \<Rightarrow> Zone \<Rightarrow> string option" where
  "mailUp h zone = None"

definition allLow :: "int \<Rightarrow> bool" where
  "allLow pin = False"

definition allHigh :: "int \<Rightarrow> bool" where
  "allHigh pin = True"

definition armedServer :: "string \<Rightarrow> Server" where
  "armedServer name =
     fst (snd (handleArm exampleConfig (NewServer exampleConfig) ''POST'' (Some name) ''admin''))"

definition awayLatched :: Server where
  "awayLatched = fst (pollSensors exampleConfig allLow mailDown (armedServer ''Away''))"

definition latchedServer :: Server where
  "latchedServer =
     fst (snd (handleTestTrigger exampleConfig mailUp (armedServer ''TestSoft'') ''POST''
       (Some 1) ''admin''))"

section \<open>The zone trigger interpreter agrees with the reference table\<close>

lemmas str_defs =
  ToLower_def ToUpper_def TrimSpace_def EqualFold_def isSpace_def
  toLowerChar_def toUpperChar_def upperLetters_def lowerLetters_def

text \<open>
  Claim C8. For every raw level and every mode string, \<open>zoneTriggered\<close> is the value of
  the reference table at the level read from the zone's pin: normally closed is
  activated exactly when the level is low, normally open and end of line exactly when
  it is high, and a mode that is not recognised, or empty, is read as normally open.
  The result depends on the level and the mode only.
\<close>

theorem zoneTriggered_table:
  "zoneTriggered readPin z = activated (readPin (Pin z)) (wiringMode (Mode z))
   \<and> activated False NormallyClosed \<and> \<not> activated True NormallyClosed
   \<and> activated True NormallyOpen \<and> \<not> activated False NormallyOpen
   \<and> activated True EndOfLine \<and> \<not> activated False EndOfLine
   \<and> wiringMode ''NC'' = NormallyClosed \<and> wiringMode ''NO'' = NormallyOpen
   \<and> wiringMode ''EOL'' = EndOfLine \<and> wiringMode '''' = NormallyOpen
   \<and> wiringMode ''tamper'' = NormallyOpen
   \<and> zoneTriggered readPin (z\<lparr>Mode := ''NC''\<rparr>) = (\<not> readPin (Pin z))
   \<and> zoneTriggered readPin (z\<lparr>Mode := ''NO''\<rparr>) = readPin (Pin z)
   \<and> zoneTriggered readPin (z\<lparr>Mode := ''EOL''\<rparr>) = readPin (Pin z)
   \<and> zoneTriggered readPin (z\<lparr>Mode := ''''\<rparr>) = readPin (Pin z)"
proof -
  have main: "zoneTriggered readPin z = activated (readPin (Pin z)) (wiringMode (Mode z))"
    by (simp add: zoneTriggered_def wiringMode_def Let_def)
  have modes: "wiringMode ''NC'' = NormallyClosed" "wiringMode ''NO'' = NormallyOpen"
    "wiringMode ''EOL'' = EndOfLine" "wiringMode '''' = NormallyOpen"
    "wiringMode ''tamper'' = NormallyOpen"
    by (simp_all add: wiringMode_def str_defs)
  have conc: "zoneTriggered readPin (z\<lparr>Mode := ''NC''\<rparr>) = (\<not> readPin (Pin z))"
    "zoneTriggered readPin (z\<lparr>Mode := ''NO''\<rparr>) = readPin (Pin z)"
    "zoneTriggered readPin (z\<lparr>Mode := ''EOL''\<rparr>) = readPin (Pin z)"
    "zoneTriggered readPin (z\<lparr>Mode := ''''\<rparr>) = readPin (Pin z)"
    by (simp_all add: zoneTriggered_def Let_def str_defs)
  show ?thesis using main modes conc by simp
qed

section \<open>Mode fields, reachable states and searches\<close>

lemma test_names_lower:
  "ToLower ''TestSoft'' = ''testsoft''" "ToLower ''TestWiring'' = ''testwiring''"
  "ToLower ''Disarmed'' = ''disarmed''"
  by (simp_all add: str_defs)

lemma handleArm_consistent: "consistent (fst (snd (handleArm cfg s method body user)))" if "consistent s"
  using that test_names_lower
  by (auto simp: handleArm_def consistent_def clearTo_def Let_def split: option.splits)

lemma handleDisarm_consistent: "consistent s \<Longrightarrow> consistent (fst (snd (handleDisarm s method user)))"
  by (auto simp: handleDisarm_def consistent_def clearTo_def)

lemma pollZone_modes:
  "currentMode (fst (pollZone cfg rp sm s zid)) = currentMode s
   \<and> testMode (fst (pollZone cfg rp sm s zid)) = testMode s
   \<and> alerts (fst (pollZone cfg rp sm s zid)) = alerts s"
  by (simp add: pollZone_def split: option.splits)

lemma pollZones_modes:
  "currentMode (fst (pollZones cfg rp sm s ids)) = currentMode s
   \<and> testMode (fst (pollZones cfg rp sm s ids)) = testMode s
   \<and> alerts (fst (pollZones cfg rp sm s ids)) = alerts s"
  by (induction ids arbitrary: s) (simp_all add: case_prod_beta pollZone_modes)

lemma step_modes:
  "currentMode (fst (step cfg s x)) = currentMode s
   \<and> testMode (fst (step cfg s x)) = testMode s
   \<and> alerts (fst (step cfg s x)) = alerts s"
  by (cases x) (auto simp: pollSensors_def pollZones_modes handleTestTrigger_def split: option.splits)

lemma step_consistent: "consistent s \<Longrightarrow> consistent (fst (step cfg s x))"
  by (simp add: consistent_def step_modes)

lemma reachable_consistent: "reachable s \<Longrightarrow> consistent s"
proof (induction rule: reachable.induct)
  case (reach_init cfg)
  show ?case by (simp add: consistent_def NewServer_def)
next
  case (reach_arm s cfg meth body user)
  then show ?case by (simp add: handleArm_consistent)
next
  case (reach_disarm s meth user)
  then show ?case by (simp add: handleDisarm_consistent)
next
  case (reach_step s cfg x)
  then show ?case by (simp add: step_consistent)
qed

lemma opState_TestSoft: "consistent s \<Longrightarrow> (opState s = TestSoft) = (testMode s = 1)"
  by (auto simp: consistent_def opState_def)

lemma findZone_None: "(findZone zs zid = None) = (zid \<notin> ID ` set zs)"
  by (induction zs) auto

lemma findZone_Some: "findZone zs zid = Some zone \<Longrightarrow> ID zone = zid \<and> zone \<in> set zs"
  by (induction zs) (auto split: if_splits)

lemma lookupActiveZones_None:
  "(\<forall>am \<in> set ams. \<not> EqualFold (ProfileName am) mode) \<Longrightarrow> lookupActiveZones ams mode = None"
  by (induction ams) auto

lemma lookupActiveZones_Some:
  "lookupActiveZones ams mode = Some ids \<Longrightarrow>
     \<exists>am \<in> set ams. EqualFold (ProfileName am) mode \<and> ActiveZones am = Some ids"
  by (induction ams) (auto split: if_splits)

lemma lookupActiveZones_unique:
  assumes "am \<in> set ams" and "EqualFold (ProfileName am) mode"
    and "\<forall>a \<in> set ams. EqualFold (ProfileName a) mode \<longrightarrow> a = am"
  shows "lookupActiveZones ams mode = ActiveZones am"
  using assms
proof (induction ams)
  case Nil
  then show ?case by simp
next
  case (Cons a ams)
  show ?case
  proof (cases "EqualFold (ProfileName a) mode")
    case True
    then have "a = am" using Cons.prems(3) by simp
    then show ?thesis using True by simp
  next
    case False
    then have "am \<in> set ams" using Cons.prems(1,2) by auto
    moreover have "\<forall>a \<in> set ams. EqualFold (ProfileName a) mode \<longrightarrow> a = am"
      using Cons.prems(3) by simp
    ultimately have "lookupActiveZones ams mode = ActiveZones am"
      using Cons.prems(2) Cons.IH by blast
    then show ?thesis using False by simp
  qed
qed

lemma handleArm_profile:
  assumes "ToLower (TrimSpace name) \<notin> {''testsoft'', ''test soft'', ''testwiring'', ''test wiring''}"
  shows "handleArm cfg s ''POST'' (Some name) user =
     (case lookupActiveZones (ArmModes cfg) (TrimSpace name) of
        None \<Rightarrow> (UnknownProfile, s, [])
      | Some ids \<Rightarrow> (NoContent, clearTo s (TrimSpace name) 0, [LogArm (TrimSpace name) user]))"
  using assms by (simp add: handleArm_def UnknownProfile_def Let_def split: option.splits)

lemma dispatch_sends: "filter isSend (dispatch sm hs zone) = map (\<lambda>h. AlertSend h zone) hs"
  by (induction hs) (auto split: option.splits)

section \<open>The example configuration, evaluated\<close>

lemma example_handlers: "initAlertHandlers exampleConfig = [mailHandler, LogAlert]"
  by (simp add: initAlertHandlers_def exampleConfig_def mailAlert_def logAlert_def
      mailHandler_def Let_def str_defs)

lemma armedServer_TestSoft:
  "armedServer ''TestSoft'' =
     \<lparr>currentMode = ''TestSoft'', triggered = Map.empty, testMode = 1,
      alerts = [mailHandler, LogAlert]\<rparr>"
  by (simp add: armedServer_def handleArm_def clearTo_def NewServer_def example_handlers
      Let_def str_defs)

lemma armedServer_reachable: "reachable (armedServer name)"
  unfolding armedServer_def by (rule reach_arm) (rule reach_init)

lemma latchedServer_eq:
  "latchedServer =
     \<lparr>currentMode = ''TestSoft'', triggered = [1 \<mapsto> True], testMode = 1,
      alerts = [mailHandler, LogAlert]\<rparr>"
  by (simp add: latchedServer_def handleTestTrigger_def armedServer_TestSoft exampleConfig_def
      latched_def zone1_def)

section \<open>Transitions\<close>

text \<open>
  Claim C5. Whatever the state before, a successful arm request (to a profile or to a
  test mode) leaves the latch set empty, and a disarm request always succeeds, moves the
  operating state to \<open>Disarmed\<close> and leaves the latch set empty.
\<close>

theorem transitions_clear_latches:
  "(fst (handleArm cfg s method body user) = NoContent \<longrightarrow>
      triggered (fst (snd (handleArm cfg s method body user))) = Map.empty
      \<and> (\<forall>zid. \<not> latched (fst (snd (handleArm cfg s method body user))) zid))
   \<and> fst (handleDisarm s ''POST'' user) = NoContent
   \<and> opState (fst (snd (handleDisarm s ''POST'' user))) = Disarmed
   \<and> triggered (fst (snd (handleDisarm s ''POST'' user))) = Map.empty
   \<and> (\<forall>zid. \<not> latched (fst (snd (handleDisarm s ''POST'' user))) zid)"
  by (auto simp: handleArm_def handleDisarm_def clearTo_def latched_def opState_def Let_def
      split: option.splits)

theorem transitions_clear_latches_witness:
  "latched latchedServer 1
   \<and> fst (handleArm exampleConfig latchedServer ''POST'' (Some ''away'') ''admin'') = NoContent
   \<and> triggered (fst (snd (handleArm exampleConfig latchedServer ''POST'' (Some ''away'') ''admin'')))
       = Map.empty
   \<and> \<not> latched (fst (snd (handleArm exampleConfig latchedServer ''POST'' (Some ''away'') ''admin''))) 1
   \<and> opState (fst (snd (handleDisarm latchedServer ''POST'' ''admin''))) = Disarmed
   \<and> \<not> latched (fst (snd (handleDisarm latchedServer ''POST'' ''admin''))) 1"
proof -
  have a: "latched latchedServer 1"
    by (simp add: latchedServer_eq latched_def)
  have b: "fst (handleArm exampleConfig latchedServer ''POST'' (Some ''away'') ''admin'') = NoContent"
    by (simp add: handleArm_def exampleConfig_def Let_def str_defs)
  show ?thesis
    using a b
      transitions_clear_latches [of exampleConfig latchedServer "''POST''" "Some ''away''" "''admin''"]
    by simp
qed

text \<open>
  Claim C6, as the code has it. A name that, with the white space around it removed and
  in lower case, is \<open>testsoft\<close> or \<open>test soft\<close> arms \<open>TestSoft\<close>, and one that is
  \<open>testwiring\<close> or \<open>test wiring\<close> arms \<open>TestWiring\<close>: the request succeeds and the latch
  set is empty, whatever profiles are configured, one of the same name included.
\<close>

theorem arm_test_modes:
  "(ToLower (TrimSpace name) \<in> {''testsoft'', ''test soft''} \<longrightarrow>
      fst (handleArm cfg s ''POST'' (Some name) user) = NoContent
      \<and> opState (fst (snd (handleArm cfg s ''POST'' (Some name) user))) = TestSoft
      \<and> triggered (fst (snd (handleArm cfg s ''POST'' (Some name) user))) = Map.empty)
   \<and> (ToLower (TrimSpace name) \<in> {''testwiring'', ''test wiring''} \<longrightarrow>
      fst (handleArm cfg s ''POST'' (Some name) user) = NoContent
      \<and> opState (fst (snd (handleArm cfg s ''POST'' (Some name) user))) = TestWiring
      \<and> triggered (fst (snd (handleArm cfg s ''POST'' (Some name) user))) = Map.empty)"
  by (auto simp: handleArm_def clearTo_def opState_def Let_def)

theorem arm_test_modes_witness:
  "ToLower (TrimSpace ''Test Soft'') \<in> {''testsoft'', ''test soft''}
   \<and> EqualFold (ProfileName \<lparr>ProfileName = ''Test Soft'', ActiveZones = Some [1]\<rparr>) ''Test Soft''
   \<and> opState (fst (snd (handleArm
        (exampleConfig\<lparr>ArmModes := [\<lparr>ProfileName = ''Test Soft'', ActiveZones = Some [1]\<rparr>]\<rparr>)
        (NewServer exampleConfig) ''POST'' (Some ''Test Soft'') ''admin''))) = TestSoft
   \<and> ToLower (TrimSpace ''TESTWIRING'') \<in> {''testwiring'', ''test wiring''}
   \<and> opState (fst (snd (handleArm exampleConfig (NewServer exampleConfig) ''POST''
        (Some ''TESTWIRING'') ''admin''))) = TestWiring"
proof -
  have a: "ToLower (TrimSpace ''Test Soft'') \<in> {''testsoft'', ''test soft''}"
    by (simp add: str_defs)
  have b: "ToLower (TrimSpace ''TESTWIRING'') \<in> {''testwiring'', ''test wiring''}"
    by (simp add: str_defs)
  have c: "EqualFold (ProfileName \<lparr>ProfileName = ''Test Soft'', ActiveZones = Some [1]\<rparr>) ''Test Soft''"
    by (simp add: EqualFold_def)
  show ?thesis
    using a b c
      arm_test_modes [of "''Test Soft''"
        "exampleConfig\<lparr>ArmModes := [\<lparr>ProfileName = ''Test Soft'', ActiveZones = Some [1]\<rparr>]\<rparr>"
        "NewServer exampleConfig" "''admin''"]
      arm_test_modes [of "''TESTWIRING''" exampleConfig "NewServer exampleConfig" "''admin''"]
    by simp
qed

text \<open>
  The claim speaks of every spelling under space-insensitive matching. With two spaces
  between the words the name is no test mode for \<open>handleArm\<close>: it is looked up among
  the profiles and the request fails.
\<close>

theorem arm_test_modes_counterexample:
  "ToLower (filter (\<lambda>c. c \<noteq> CHR '' '') ''Test  Soft'') = ''testsoft''
   \<and> handleArm exampleConfig (NewServer exampleConfig) ''POST'' (Some ''Test  Soft'') ''admin''
       = (UnknownProfile, NewServer exampleConfig, [])"
  by (simp add: handleArm_def exampleConfig_def UnknownProfile_def Let_def str_defs)

text \<open>
  Claim C3 at a profile that exists and whose zone list is nil (created by a request
  that names no \<open>active_zones\<close>): the profile matches the name, and \<open>handleArm\<close>
  answers that the arm mode is unknown, since it takes the nil list of the profile for
  the sign that no profile was found.
\<close>

theorem arm_nil_profile_rejected:
  "EqualFold (ProfileName (ArmModes exampleConfig ! 2)) ''Night''
   \<and> handleArm exampleConfig (NewServer exampleConfig) ''POST'' (Some ''Night'') ''admin''
       = (UnknownProfile, NewServer exampleConfig, [])"
  by (simp add: handleArm_def exampleConfig_def UnknownProfile_def Let_def str_defs)

text \<open>
  A profile can be named \<open>Disarmed\<close>. Arming it succeeds and leaves the server in the
  state that \<open>pollSensors\<close> takes for disarmed.
\<close>

lemma arm_profile_named_Disarmed:
  "handleArm (exampleConfig\<lparr>ArmModes := [\<lparr>ProfileName = ''Disarmed'', ActiveZones = Some [1]\<rparr>]\<rparr>)
     (NewServer exampleConfig) ''POST'' (Some ''Disarmed'') ''admin'' =
     (NoContent, NewServer exampleConfig, [LogArm ''Disarmed'' ''admin''])
   \<and> opState (NewServer exampleConfig) = Disarmed"
  by (simp add: handleArm_def clearTo_def NewServer_def opState_def Let_def str_defs)

section \<open>Manual test trigger\<close>

text \<open>
  Claim C4. In a reachable state, a trigger request fails with \<open>NotInTestSoftMode\<close>
  whenever the operating state is not \<open>TestSoft\<close>, and with \<open>UnknownZone\<close> when it is
  \<open>TestSoft\<close> and no configured zone has the ID; both leave the state as it is and do
  nothing else. When the zone's latch is set already the request succeeds and does
  nothing. Otherwise it sets the latch, writes the log record and invokes every alert
  handler of the server, in order.
\<close>

theorem triggerManually_contract:
  assumes "reachable s"
  shows
  "(opState s \<noteq> TestSoft \<longrightarrow>
      handleTestTrigger cfg sm s ''POST'' body user = (NotInTestSoftMode, s, []))
   \<and> (opState s = TestSoft \<and> zid \<notin> ID ` set (Zones cfg) \<longrightarrow>
      handleTestTrigger cfg sm s ''POST'' (Some zid) user = (UnknownZone, s, []))
   \<and> (opState s = TestSoft \<and> findZone (Zones cfg) zid = Some zone \<and> latched s zid \<longrightarrow>
      handleTestTrigger cfg sm s ''POST'' (Some zid) user = (NoContent, s, []))
   \<and> (opState s = TestSoft \<and> findZone (Zones cfg) zid = Some zone \<and> \<not> latched s zid \<longrightarrow>
      handleTestTrigger cfg sm s ''POST'' (Some zid) user =
        (NoContent, s\<lparr>triggered := (triggered s)(zid \<mapsto> True)\<rparr>,
         LogTestTrigger zid (Name zone) user # dispatch sm (alerts s) zone)
      \<and> latched (s\<lparr>triggered := (triggered s)(zid \<mapsto> True)\<rparr>) zid
      \<and> filter isSend (dispatch sm (alerts s) zone) = map (\<lambda>h. AlertSend h zone) (alerts s))"
proof -
  have ts: "(opState s = TestSoft) = (testMode s = 1)"
    using assms by (simp add: reachable_consistent opState_TestSoft)
  have a: "opState s \<noteq> TestSoft \<longrightarrow>
      handleTestTrigger cfg sm s ''POST'' body user = (NotInTestSoftMode, s, [])"
    by (simp add: ts handleTestTrigger_def NotInTestSoftMode_def)
  have b: "opState s = TestSoft \<and> zid \<notin> ID ` set (Zones cfg) \<longrightarrow>
      handleTestTrigger cfg sm s ''POST'' (Some zid) user = (UnknownZone, s, [])"
    using findZone_None [of "Zones cfg" zid]
    by (auto simp: ts handleTestTrigger_def UnknownZone_def)
  have c: "opState s = TestSoft \<and> findZone (Zones cfg) zid = Some zone \<and> latched s zid \<longrightarrow>
      handleTestTrigger cfg sm s ''POST'' (Some zid) user = (NoContent, s, [])"
    using findZone_Some [of "Zones cfg" zid zone]
    by (auto simp: ts handleTestTrigger_def)
  have d: "opState s = TestSoft \<and> findZone (Zones cfg) zid = Some zone \<and> \<not> latched s zid \<longrightarrow>
      handleTestTrigger cfg sm s ''POST'' (Some zid) user =
        (NoContent, s\<lparr>triggered := (triggered s)(zid \<mapsto> True)\<rparr>,
         LogTestTrigger zid (Name zone) user # dispatch sm (alerts s) zone)"
    using findZone_Some [of "Zones cfg" zid zone]
    by (auto simp: ts handleTestTrigger_def)
  have e: "latched (s\<lparr>triggered := (triggered s)(zid \<mapsto> True)\<rparr>) zid"
    by (simp add: latched_def)
  show ?thesis using a b c d e dispatch_sends by simp
qed

theorem triggerManually_contract_witness:
  "reachable (armedServer ''TestSoft'') \<and> reachable (NewServer exampleConfig)
   \<and> opState (NewServer exampleConfig) \<noteq> TestSoft
   \<and> handleTestTrigger exampleConfig mailUp (NewServer exampleConfig) ''POST'' (Some 1) ''admin''
       = (NotInTestSoftMode, NewServer exampleConfig, [])
   \<and> opState (armedServer ''TestSoft'') = TestSoft
   \<and> 7 \<notin> ID ` set (Zones exampleConfig)
   \<and> handleTestTrigger exampleConfig mailUp (armedServer ''TestSoft'') ''POST'' (Some 7) ''admin''
       = (UnknownZone, armedServer ''TestSoft'', [])
   \<and> findZone (Zones exampleConfig) 1 = Some zone1 \<and> \<not> latched (armedServer ''TestSoft'') 1
   \<and> handleTestTrigger exampleConfig mailUp (armedServer ''TestSoft'') ''POST'' (Some 1) ''admin''
       = (NoContent, (armedServer ''TestSoft'')\<lparr>triggered := [1 \<mapsto> True]\<rparr>,
          [LogTestTrigger 1 ''Front Door'' ''admin'', AlertSend mailHandler zone1,
           AlertSend LogAlert zone1])"
proof -
  have r1: "reachable (armedServer ''TestSoft'')" by (rule armedServer_reachable)
  have r0: "reachable (NewServer exampleConfig)" by (rule reach_init)
  have o0: "opState (NewServer exampleConfig) \<noteq> TestSoft"
    by (simp add: opState_def NewServer_def)
  have o1: "opState (armedServer ''TestSoft'') = TestSoft"
    by (simp add: opState_def armedServer_TestSoft)
  have z7: "7 \<notin> ID ` set (Zones exampleConfig)"
    by (simp add: exampleConfig_def zone1_def zone2_def zone3_def)
  have z1: "findZone (Zones exampleConfig) 1 = Some zone1"
    by (simp add: exampleConfig_def zone1_def)
  have l1: "\<not> latched (armedServer ''TestSoft'') 1"
    by (simp add: latched_def armedServer_TestSoft)
  have d: "dispatch mailUp (alerts (armedServer ''TestSoft'')) zone1 =
      [AlertSend mailHandler zone1, AlertSend LogAlert zone1]"
    by (simp add: armedServer_TestSoft mailHandler_def mailUp_def)
  have n: "Name zone1 = ''Front Door''" by (simp add: zone1_def)
  have t: "triggered (armedServer ''TestSoft'') = Map.empty" by (simp add: armedServer_TestSoft)
  show ?thesis
    using triggerManually_contract [OF r0, of exampleConfig mailUp "Some 1" "''admin''" 1 zone1]
      triggerManually_contract [OF r1, of exampleConfig mailUp "Some 7" "''admin''" 7 zone1]
      triggerManually_contract [OF r1, of exampleConfig mailUp "Some 1" "''admin''" 1 zone1]
      r0 r1 o0 o1 z7 z1 l1 d n t
    by simp
qed

text \<open>
  Claim C10 at a disabled zone: in \<open>TestSoft\<close> a trigger request for zone 3, whose
  \<open>Enabled\<close> flag is false, sets its latch and invokes the alert handlers.
  \<open>handleTestTrigger\<close> does not look at the flag.
\<close>

theorem manual_trigger_disabled_zone:
  "\<not> Enabled zone3 \<and> findZone (Zones exampleConfig) 3 = Some zone3
   \<and> \<not> latched (armedServer ''TestSoft'') 3
   \<and> handleTestTrigger exampleConfig mailUp (armedServer ''TestSoft'') ''POST'' (Some 3) ''admin''
       = (NoContent, (armedServer ''TestSoft'')\<lparr>triggered := [3 \<mapsto> True]\<rparr>,
          [LogTestTrigger 3 ''Garage'' ''admin'', AlertSend mailHandler zone3,
           AlertSend LogAlert zone3])
   \<and> latched ((armedServer ''TestSoft'')\<lparr>triggered := [3 \<mapsto> True]\<rparr>) 3"
  by (simp add: handleTestTrigger_def armedServer_TestSoft exampleConfig_def latched_def
      zone1_def zone2_def zone3_def mailHandler_def mailUp_def)

section \<open>The poll loop\<close>

lemma consistent_opState:
  assumes "consistent s"
  shows "(opState s = TestWiring) = (testMode s = 2)"
    and "(opState s = Disarmed) = (currentMode s = ''Disarmed'')"
    and "(opState s = Armed p) = (testMode s = 0 \<and> currentMode s = p \<and> p \<noteq> ''Disarmed'')"
    and "currentMode s = ''Disarmed'' \<longrightarrow> testMode s = 0"
  using assms by (auto simp: consistent_def opState_def)

lemma polled_ID: "polled cfg zid = Some zone \<Longrightarrow> ID zone = zid"
  by (auto simp: polled_def split: option.splits if_splits dest: findZone_Some)

lemma pollZone_eq:
  "pollZone cfg rp sm s zid =
     (case polled cfg zid of
        None \<Rightarrow> (s, [])
      | Some zone \<Rightarrow>
          if zoneTriggered rp zone \<and> \<not> latched s zid then
            (s\<lparr>triggered := (triggered s)(zid \<mapsto> True)\<rparr>,
             ReadPin (Pin zone) # LogTrigger zid (Name zone) #
               (if testMode s = 0 then dispatch sm (alerts s) zone else []))
          else (s, [ReadPin (Pin zone)]))"
  by (auto simp: pollZone_def polled_def split: option.splits dest: findZone_Some)

lemma pollZones_Cons:
  "fst (pollZones cfg rp sm s (zid # ids)) =
     fst (pollZones cfg rp sm (fst (pollZone cfg rp sm s zid)) ids)"
  "snd (pollZones cfg rp sm s (zid # ids)) =
     snd (pollZone cfg rp sm s zid) @ snd (pollZones cfg rp sm (fst (pollZone cfg rp sm s zid)) ids)"
  by (simp_all add: case_prod_beta)

lemma pollZone_latched:
  "latched (fst (pollZone cfg rp sm s zid)) z = (latched s z \<or> (z = zid \<and> fires cfg rp z))"
  by (auto simp: pollZone_eq fires_def latched_def split: option.splits)

lemma pollZones_latched:
  "latched (fst (pollZones cfg rp sm s ids)) z = (latched s z \<or> (z \<in> set ids \<and> fires cfg rp z))"
proof (induction ids arbitrary: s)
  case Nil
  show ?case by simp
next
  case (Cons zid ids)
  show ?case
    unfolding pollZones_Cons Cons.IH pollZone_latched by auto
qed

lemma poll_skips_disabled:
  assumes "findZone (Zones cfg) z = Some zone" and "\<not> Enabled zone"
  shows "latched (fst (pollSensors cfg rp sm s)) z = latched s z"
proof -
  have "\<not> fires cfg rp z" using assms by (simp add: fires_def polled_def)
  then show ?thesis
    by (simp add: pollSensors_def pollZones_latched)
qed

lemma dispatch_send_iff:
  "(AlertSend h z \<in> set (dispatch sm hs zone)) = (h \<in> set hs \<and> z = zone)"
  by (induction hs) (auto split: option.splits)

lemma dispatch_no_trigger: "LogTrigger i n \<notin> set (dispatch sm hs zone)"
  by (induction hs) (auto split: option.splits)

lemma dispatch_no_read: "filter isReadPin (dispatch sm hs zone) = []"
  by (induction hs) (auto split: option.splits)

lemma pollZone_trigger:
  "(\<exists>n. LogTrigger z n \<in> set (snd (pollZone cfg rp sm s zid))) =
     (\<not> latched s z \<and> z = zid \<and> fires cfg rp z)"
  by (auto simp: pollZone_eq fires_def dispatch_no_trigger split: option.splits)

lemma pollZones_trigger:
  "(\<exists>n. LogTrigger z n \<in> set (snd (pollZones cfg rp sm s ids))) =
     (\<not> latched s z \<and> z \<in> set ids \<and> fires cfg rp z)"
proof (induction ids arbitrary: s)
  case Nil
  show ?case by simp
next
  case (Cons zid ids)
  have "(\<exists>n. LogTrigger z n \<in> set (snd (pollZones cfg rp sm s (zid # ids)))) =
        ((\<exists>n. LogTrigger z n \<in> set (snd (pollZone cfg rp sm s zid)))
         \<or> (\<exists>n. LogTrigger z n \<in> set (snd (pollZones cfg rp sm (fst (pollZone cfg rp sm s zid)) ids))))"
    unfolding pollZones_Cons by auto
  then show ?case
    unfolding Cons.IH pollZone_trigger pollZone_latched by auto
qed

lemma pollZone_send:
  "(AlertSend h zone \<in> set (snd (pollZone cfg rp sm s zid))) =
     (testMode s = 0 \<and> h \<in> set (alerts s) \<and> \<not> latched s zid \<and> ID zone = zid
      \<and> polled cfg zid = Some zone \<and> zoneTriggered rp zone)"
  by (auto simp: pollZone_eq dispatch_send_iff polled_ID split: option.splits)

lemma pollZones_send:
  "(AlertSend h zone \<in> set (snd (pollZones cfg rp sm s ids))) =
     (testMode s = 0 \<and> h \<in> set (alerts s) \<and> \<not> latched s (ID zone) \<and> ID zone \<in> set ids
      \<and> polled cfg (ID zone) = Some zone \<and> zoneTriggered rp zone)"
proof (induction ids arbitrary: s)
  case Nil
  show ?case by simp
next
  case (Cons zid ids)
  have f: "polled cfg (ID zone) = Some zone \<and> zoneTriggered rp zone \<Longrightarrow> fires cfg rp (ID zone)"
    by (simp add: fires_def)
  show ?case
    unfolding pollZones_Cons set_append Un_iff Cons.IH pollZone_send pollZone_latched
    using f by (auto simp: pollZone_modes)
qed

lemma pollZone_reads:
  "filter isReadPin (snd (pollZone cfg rp sm s zid)) =
     map ReadPin (map Pin (List.map_filter (polled cfg) [zid]))"
  by (auto simp: pollZone_eq List.map_filter_def dispatch_no_read split: option.splits)

lemma pollZones_reads:
  "filter isReadPin (snd (pollZones cfg rp sm s ids)) =
     map ReadPin (map Pin (List.map_filter (polled cfg) ids))"
proof (induction ids arbitrary: s)
  case Nil
  show ?case by (simp add: List.map_filter_def)
next
  case (Cons zid ids)
  show ?case
    unfolding pollZones_Cons filter_append Cons.IH pollZone_reads
    by (simp add: List.map_filter_def)
qed

lemma pollZone_wiring_events:
  assumes "testMode s \<noteq> 0"
  shows "\<forall>e \<in> set (snd (pollZone cfg rp sm s zid)). isReadPin e \<or> isTriggerRecord e"
proof (cases "polled cfg zid")
  case None
  then show ?thesis by (simp add: pollZone_eq)
next
  case (Some zone)
  then show ?thesis using assms by (simp add: pollZone_eq)
qed

lemma pollZones_wiring_events:
  "testMode s \<noteq> 0 \<Longrightarrow>
     \<forall>e \<in> set (snd (pollZones cfg rp sm s ids)). isReadPin e \<or> isTriggerRecord e"
proof (induction ids arbitrary: s)
  case Nil
  then show ?case by simp
next
  case (Cons zid ids)
  have "testMode (fst (pollZone cfg rp sm s zid)) \<noteq> 0"
    using Cons.prems by (simp add: pollZone_modes)
  then have "\<forall>e \<in> set (snd (pollZones cfg rp sm (fst (pollZone cfg rp sm s zid)) ids)).
      isReadPin e \<or> isTriggerRecord e"
    by (rule Cons.IH)
  moreover have "\<forall>e \<in> set (snd (pollZone cfg rp sm s zid)). isReadPin e \<or> isTriggerRecord e"
    using Cons.prems by (rule pollZone_wiring_events)
  ultimately show ?case
    unfolding pollZones_Cons set_append by blast
qed

text \<open>The example, evaluated further.\<close>

lemma newServer_example:
  "NewServer exampleConfig =
     \<lparr>currentMode = ''Disarmed'', triggered = Map.empty, testMode = 0,
      alerts = [mailHandler, LogAlert]\<rparr>"
  by (simp add: NewServer_def example_handlers)

lemma example_lookup:
  "lookupActiveZones (ArmModes exampleConfig) ''Away'' = Some [1, 2]"
  "lookupActiveZones (ArmModes exampleConfig) ''Home'' = Some [1]"
  by (simp_all add: exampleConfig_def str_defs)

lemma armedServer_Away:
  "armedServer ''Away'' =
     \<lparr>currentMode = ''Away'', triggered = Map.empty, testMode = 0,
      alerts = [mailHandler, LogAlert]\<rparr>"
  by (simp add: armedServer_def handleArm_def clearTo_def newServer_example example_lookup
      Let_def ToLower_def TrimSpace_def isSpace_def toLowerChar_def upperLetters_def
      lowerLetters_def)

lemma armedServer_TestWiring:
  "armedServer ''TestWiring'' =
     \<lparr>currentMode = ''TestWiring'', triggered = Map.empty, testMode = 2,
      alerts = [mailHandler, LogAlert]\<rparr>"
  by (simp add: armedServer_def handleArm_def clearTo_def NewServer_def example_handlers
      Let_def str_defs)

lemma example_polled:
  "polled exampleConfig 1 = Some zone1" "polled exampleConfig 2 = Some zone2"
  "polled exampleConfig 3 = None"
  by (simp_all add: polled_def exampleConfig_def zone1_def zone2_def zone3_def)

lemma example_levels:
  "zoneTriggered allLow zone1" "\<not> zoneTriggered allLow zone2"
  "\<not> zoneTriggered allHigh zone1" "zoneTriggered allHigh zone2"
  by (simp_all add: zoneTriggered_def zone1_def zone2_def allLow_def allHigh_def Let_def str_defs)

lemma zone_fields:
  "ID zone1 = 1" "Name zone1 = ''Front Door''" "Pin zone1 = 17"
  "ID zone2 = 2" "Name zone2 = ''Hall''" "Pin zone2 = 27"
  by (simp_all add: zone1_def zone2_def)

lemma awayLatched_eq:
  "awayLatched =
     \<lparr>currentMode = ''Away'', triggered = [1 \<mapsto> True], testMode = 0,
      alerts = [mailHandler, LogAlert]\<rparr>"
  by (simp add: awayLatched_def pollSensors_def activeIDs_def armedServer_Away example_lookup
      nilToEmpty_def pollZone_eq example_polled example_levels latched_def)

lemma example_poll_away:
  "pollSensors exampleConfig allLow mailDown (armedServer ''Away'') =
     (awayLatched,
      [ReadPin 17, LogTrigger 1 ''Front Door'', AlertSend mailHandler zone1,
       LogHandlerError ''email'' ''connection refused'', AlertSend LogAlert zone1, ReadPin 27])"
  by (simp add: awayLatched_eq pollSensors_def activeIDs_def armedServer_Away example_lookup
      nilToEmpty_def pollZone_eq example_polled example_levels latched_def mailHandler_def
      mailDown_def zone_fields)

lemma example_session:
  "run exampleConfig awayLatched [PollTick allHigh mailUp, PollTick allLow mailUp] =
     (awayLatched\<lparr>triggered := [1 \<mapsto> True, 2 \<mapsto> True]\<rparr>,
      [ReadPin 17, ReadPin 27, LogTrigger 2 ''Hall'', AlertSend mailHandler zone2,
       AlertSend LogAlert zone2, ReadPin 17, ReadPin 27])"
  by (simp add: awayLatched_eq pollSensors_def activeIDs_def example_lookup
      nilToEmpty_def pollZone_eq example_polled example_levels latched_def mailHandler_def
      mailUp_def zone_fields)

text \<open>
  Claim C2. A poll tick in a reachable state. In \<open>Disarmed\<close> and in \<open>TestSoft\<close> it reads
  no pin, latches nothing and does nothing else. Otherwise the active IDs are the IDs
  of all configured zones in \<open>TestWiring\<close> and the zone list of the profile that matches
  the current mode in \<open>Armed\<close>. Pins are read for exactly the active IDs that have a
  configured, enabled zone, in order. A zone is latched after the tick exactly when it
  was latched before or is such an active zone and the interpreter reports it
  activated; the log record of the latch is written exactly for the second kind, when
  not latched before; and an alert handler is invoked for a zone exactly when the state
  is not \<open>TestWiring\<close>, the handler is one of the server's and the zone is latched afresh.
  In \<open>TestWiring\<close> the tick does nothing but read pins and write trigger records.
\<close>

theorem poll_tick_contract:
  assumes "reachable s"
  shows
  "(opState s = Disarmed \<or> opState s = TestSoft \<longrightarrow> pollSensors cfg rp sm s = (s, []))
   \<and> (opState s = TestWiring \<longrightarrow> activeIDs cfg s = map ID (Zones cfg))
   \<and> (opState s = Armed p \<and> am \<in> set (ArmModes cfg) \<and> EqualFold (ProfileName am) p
        \<and> (\<forall>a \<in> set (ArmModes cfg). EqualFold (ProfileName a) p \<longrightarrow> a = am) \<longrightarrow>
        activeIDs cfg s = nilToEmpty (ActiveZones am))
   \<and> (opState s = TestWiring \<or> opState s = Armed p \<longrightarrow>
        latched (fst (pollSensors cfg rp sm s)) z =
          (latched s z \<or> (z \<in> set (activeIDs cfg s) \<and> fires cfg rp z))
        \<and> filter isReadPin (snd (pollSensors cfg rp sm s)) =
          map ReadPin (map Pin (List.map_filter (polled cfg) (activeIDs cfg s)))
        \<and> (\<exists>n. LogTrigger z n \<in> set (snd (pollSensors cfg rp sm s))) =
          (\<not> latched s z \<and> z \<in> set (activeIDs cfg s) \<and> fires cfg rp z)
        \<and> (AlertSend h zone \<in> set (snd (pollSensors cfg rp sm s))) =
          (opState s \<noteq> TestWiring \<and> h \<in> set (alerts s) \<and> \<not> latched s (ID zone)
           \<and> ID zone \<in> set (activeIDs cfg s) \<and> polled cfg (ID zone) = Some zone
           \<and> zoneTriggered rp zone))
   \<and> (opState s = TestWiring \<longrightarrow>
        (\<forall>e \<in> set (snd (pollSensors cfg rp sm s)). isReadPin e \<or> isTriggerRecord e))"
proof -
  have c: "consistent s" using assms by (rule reachable_consistent)
  note os = consistent_opState [OF c] opState_TestSoft [OF c]
  have idle: "opState s = Disarmed \<or> opState s = TestSoft \<longrightarrow> pollSensors cfg rp sm s = (s, [])"
    by (auto simp: os pollSensors_def)
  have wiring: "opState s = TestWiring \<longrightarrow> activeIDs cfg s = map ID (Zones cfg)"
    by (simp add: os activeIDs_def)
  have armed: "opState s = Armed p \<and> am \<in> set (ArmModes cfg) \<and> EqualFold (ProfileName am) p
        \<and> (\<forall>a \<in> set (ArmModes cfg). EqualFold (ProfileName a) p \<longrightarrow> a = am) \<longrightarrow>
        activeIDs cfg s = nilToEmpty (ActiveZones am)"
  proof
    assume a: "opState s = Armed p \<and> am \<in> set (ArmModes cfg) \<and> EqualFold (ProfileName am) p
        \<and> (\<forall>a \<in> set (ArmModes cfg). EqualFold (ProfileName a) p \<longrightarrow> a = am)"
    then have "lookupActiveZones (ArmModes cfg) p = ActiveZones am"
      by (intro lookupActiveZones_unique) blast+
    moreover have "testMode s = 0 \<and> currentMode s = p"
      using a os(3) by blast
    ultimately show "activeIDs cfg s = nilToEmpty (ActiveZones am)"
      by (simp add: activeIDs_def)
  qed
  have run: "opState s = TestWiring \<or> opState s = Armed p \<Longrightarrow>
      pollSensors cfg rp sm s = pollZones cfg rp sm s (activeIDs cfg s)"
    using c by (auto simp: os pollSensors_def consistent_def)
  have tm: "opState s = TestWiring \<or> opState s = Armed p \<Longrightarrow>
      (testMode s = 0) = (opState s \<noteq> TestWiring)"
    by (auto simp: os)
  have work: "opState s = TestWiring \<or> opState s = Armed p \<longrightarrow>
        latched (fst (pollSensors cfg rp sm s)) z =
          (latched s z \<or> (z \<in> set (activeIDs cfg s) \<and> fires cfg rp z))
        \<and> filter isReadPin (snd (pollSensors cfg rp sm s)) =
          map ReadPin (map Pin (List.map_filter (polled cfg) (activeIDs cfg s)))
        \<and> (\<exists>n. LogTrigger z n \<in> set (snd (pollSensors cfg rp sm s))) =
          (\<not> latched s z \<and> z \<in> set (activeIDs cfg s) \<and> fires cfg rp z)
        \<and> (AlertSend h zone \<in> set (snd (pollSensors cfg rp sm s))) =
          (opState s \<noteq> TestWiring \<and> h \<in> set (alerts s) \<and> \<not> latched s (ID zone)
           \<and> ID zone \<in> set (activeIDs cfg s) \<and> polled cfg (ID zone) = Some zone
           \<and> zoneTriggered rp zone)"
  proof
    assume a: "opState s = TestWiring \<or> opState s = Armed p"
    show "latched (fst (pollSensors cfg rp sm s)) z =
          (latched s z \<or> (z \<in> set (activeIDs cfg s) \<and> fires cfg rp z))
        \<and> filter isReadPin (snd (pollSensors cfg rp sm s)) =
          map ReadPin (map Pin (List.map_filter (polled cfg) (activeIDs cfg s)))
        \<and> (\<exists>n. LogTrigger z n \<in> set (snd (pollSensors cfg rp sm s))) =
          (\<not> latched s z \<and> z \<in> set (activeIDs cfg s) \<and> fires cfg rp z)
        \<and> (AlertSend h zone \<in> set (snd (pollSensors cfg rp sm s))) =
          (opState s \<noteq> TestWiring \<and> h \<in> set (alerts s) \<and> \<not> latched s (ID zone)
           \<and> ID zone \<in> set (activeIDs cfg s) \<and> polled cfg (ID zone) = Some zone
           \<and> zoneTriggered rp zone)"
      unfolding run [OF a] pollZones_latched pollZones_reads pollZones_trigger pollZones_send
        tm [OF a]
      by simp
  qed
  have quiet: "opState s = TestWiring \<longrightarrow>
        (\<forall>e \<in> set (snd (pollSensors cfg rp sm s)). isReadPin e \<or> isTriggerRecord e)"
  proof
    assume a: "opState s = TestWiring"
    then have "testMode s \<noteq> 0" by (simp add: os)
    then have "\<forall>e \<in> set (snd (pollZones cfg rp sm s (activeIDs cfg s))).
        isReadPin e \<or> isTriggerRecord e"
      by (rule pollZones_wiring_events)
    then show "\<forall>e \<in> set (snd (pollSensors cfg rp sm s)). isReadPin e \<or> isTriggerRecord e"
      using run a by simp
  qed
  show ?thesis
    by (rule conjI [OF idle conjI [OF wiring conjI [OF armed conjI [OF work quiet]]]])
qed

theorem poll_tick_contract_witness:
  "reachable (armedServer ''Away'') \<and> opState (armedServer ''Away'') = Armed ''Away''
   \<and> activeIDs exampleConfig (armedServer ''Away'') = [1, 2]
   \<and> latched (fst (pollSensors exampleConfig allLow mailDown (armedServer ''Away''))) 1
   \<and> filter isReadPin (snd (pollSensors exampleConfig allLow mailDown (armedServer ''Away'')))
       = [ReadPin 17, ReadPin 27]
   \<and> (\<exists>n. LogTrigger 1 n \<in> set (snd (pollSensors exampleConfig allLow mailDown (armedServer ''Away''))))
   \<and> AlertSend LogAlert zone1
       \<in> set (snd (pollSensors exampleConfig allLow mailDown (armedServer ''Away'')))"
proof -
  let ?s = "armedServer ''Away''"
  let ?am = "\<lparr>ProfileName = ''Away'', ActiveZones = Some [1, 2]\<rparr>"
  have r: "reachable ?s" by (rule armedServer_reachable)
  have o: "opState ?s = Armed ''Away''"
    by (simp add: opState_def armedServer_Away)
  have m: "?am \<in> set (ArmModes exampleConfig) \<and> EqualFold (ProfileName ?am) ''Away''
      \<and> (\<forall>a \<in> set (ArmModes exampleConfig). EqualFold (ProfileName a) ''Away'' \<longrightarrow> a = ?am)"
    by (simp add: exampleConfig_def str_defs)
  note T = poll_tick_contract [OF r, where cfg = exampleConfig and rp = allLow and sm = mailDown
      and p = "''Away''" and am = ?am and z = 1 and h = LogAlert and zone = zone1]
  from T o m have ids: "activeIDs exampleConfig ?s = nilToEmpty (ActiveZones ?am)"
    by blast
  then have ids': "activeIDs exampleConfig ?s = [1, 2]"
    by (simp add: nilToEmpty_def)
  have f: "fires exampleConfig allLow 1"
    by (simp add: fires_def example_polled example_levels)
  have l: "\<not> latched ?s 1" by (simp add: latched_def armedServer_Away)
  have a: "LogAlert \<in> set (alerts ?s)" by (simp add: armedServer_Away)
  have z: "ID zone1 = 1" "Pin zone1 = 17" "Pin zone2 = 27" by (simp_all add: zone1_def zone2_def)
  have mf: "List.map_filter (polled exampleConfig) [1, 2] = [zone1, zone2]"
    by (simp add: List.map_filter_def example_polled)
  from T o have w:
    "latched (fst (pollSensors exampleConfig allLow mailDown ?s)) 1 =
          (latched ?s 1 \<or> (1 \<in> set (activeIDs exampleConfig ?s) \<and> fires exampleConfig allLow 1))
        \<and> filter isReadPin (snd (pollSensors exampleConfig allLow mailDown ?s)) =
          map ReadPin (map Pin (List.map_filter (polled exampleConfig) (activeIDs exampleConfig ?s)))
        \<and> (\<exists>n. LogTrigger 1 n \<in> set (snd (pollSensors exampleConfig allLow mailDown ?s))) =
          (\<not> latched ?s 1 \<and> 1 \<in> set (activeIDs exampleConfig ?s) \<and> fires exampleConfig allLow 1)
        \<and> (AlertSend LogAlert zone1 \<in> set (snd (pollSensors exampleConfig allLow mailDown ?s))) =
          (opState ?s \<noteq> TestWiring \<and> LogAlert \<in> set (alerts ?s) \<and> \<not> latched ?s (ID zone1)
           \<and> ID zone1 \<in> set (activeIDs exampleConfig ?s) \<and> polled exampleConfig (ID zone1) = Some zone1
           \<and> zoneTriggered allLow zone1)"
    by blast
  show ?thesis
    using r o ids' f l a z mf w example_polled example_levels by simp
qed

section \<open>Sessions: a zone is latched and alerted at most once\<close>

lemma dispatch_latchRecord: "filter (latchRecord z) (dispatch sm hs zone) = []"
  by (induction hs) (auto split: option.splits)

lemma dispatch_alertFor:
  "length (filter (alertFor z) (dispatch sm hs zone)) = (if ID zone = z then length hs else 0)"
  by (induction hs) (auto split: option.splits)

lemma dispatch_alertFor_other:
  "ID zone \<noteq> z \<Longrightarrow> filter (alertFor z) (dispatch sm hs zone) = []"
  by (induction hs) (auto split: option.splits)

lemma pollZone_count_latch:
  "length (filter (latchRecord z) (snd (pollZone cfg rp sm s zid))) =
     (if \<not> latched s z \<and> z = zid \<and> fires cfg rp z then 1 else 0)"
  by (auto simp: pollZone_eq fires_def dispatch_latchRecord split: option.splits)

lemma pollZone_count_alert:
  "length (filter (alertFor z) (snd (pollZone cfg rp sm s zid))) =
     (if \<not> latched s z \<and> z = zid \<and> fires cfg rp z \<and> testMode s = 0
      then length (alerts s) else 0)"
proof (cases "polled cfg zid")
  case None
  then show ?thesis by (auto simp: pollZone_eq fires_def)
next
  case (Some zone)
  then have i: "ID zone = zid" by (rule polled_ID)
  show ?thesis
  proof (cases "z = zid")
    case True
    then show ?thesis using Some i
      by (simp add: pollZone_eq fires_def dispatch_alertFor)
  next
    case False
    then have "filter (alertFor z) (dispatch sm (alerts s) zone) = []"
      using i by (simp add: dispatch_alertFor_other)
    then show ?thesis using Some False
      by (simp add: pollZone_eq)
  qed
qed

lemma pollZones_count_latch:
  "length (filter (latchRecord z) (snd (pollZones cfg rp sm s ids))) =
     (if \<not> latched s z \<and> z \<in> set ids \<and> fires cfg rp z then 1 else 0)"
proof (induction ids arbitrary: s)
  case Nil
  show ?case by simp
next
  case (Cons zid ids)
  show ?case
    unfolding pollZones_Cons filter_append length_append Cons.IH pollZone_count_latch
      pollZone_latched
    by auto
qed

lemma pollZones_count_alert:
  "length (filter (alertFor z) (snd (pollZones cfg rp sm s ids))) =
     (if \<not> latched s z \<and> z \<in> set ids \<and> fires cfg rp z \<and> testMode s = 0
      then length (alerts s) else 0)"
proof (induction ids arbitrary: s)
  case Nil
  show ?case by simp
next
  case (Cons zid ids)
  have m: "testMode (fst (pollZone cfg rp sm s zid)) = testMode s"
    "alerts (fst (pollZone cfg rp sm s zid)) = alerts s"
    by (simp_all add: pollZone_modes)
  show ?case
    unfolding pollZones_Cons filter_append length_append Cons.IH pollZone_count_alert
      pollZone_latched m
    by auto
qed

lemma trigger_cases:
  "snd (handleTestTrigger cfg sm s m b u) = (s, [])
   \<or> (\<exists>zone. findZone (Zones cfg) (ID zone) = Some zone \<and> \<not> latched s (ID zone)
        \<and> snd (handleTestTrigger cfg sm s m b u) =
            (s\<lparr>triggered := (triggered s)(ID zone \<mapsto> True)\<rparr>,
             LogTestTrigger (ID zone) (Name zone) u # dispatch sm (alerts s) zone))"
proof (cases "m = ''POST'' \<and> testMode s = 1")
  case False
  then show ?thesis by (auto simp: handleTestTrigger_def)
next
  case True
  show ?thesis
  proof (cases b)
    case None
    then show ?thesis using True by (simp add: handleTestTrigger_def)
  next
    case (Some zid)
    show ?thesis
    proof (cases "findZone (Zones cfg) zid")
      case None
      then show ?thesis using True Some by (simp add: handleTestTrigger_def)
    next
      case (Some zone)
      then have "ID zone = zid" by (simp add: findZone_Some)
      then show ?thesis using True Some \<open>b = Some zid\<close>
        by (auto simp: handleTestTrigger_def)
    qed
  qed
qed

lemma step_counts:
  "latched (fst (step cfg s x)) z = (latched s z \<or> fresh cfg s x z)
   \<and> length (filter (latchRecord z) (snd (step cfg s x))) = (if fresh cfg s x z then 1 else 0)
   \<and> length (filter (alertFor z) (snd (step cfg s x))) \<le> (if fresh cfg s x z then length (alerts s) else 0)"
proof (cases x)
  case (PollTick rp sm)
  show ?thesis
  proof (cases "currentMode s = ''Disarmed'' \<or> testMode s = 1")
    case True
    then show ?thesis using PollTick by (auto simp: pollSensors_def fresh_def)
  next
    case False
    then have e: "step cfg s x = pollZones cfg rp sm s (activeIDs cfg s)"
      using PollTick by (simp add: pollSensors_def)
    show ?thesis
      unfolding fresh_def e pollZones_latched pollZones_count_latch pollZones_count_alert
      by auto
  qed
next
  case (ManualTrigger sm m b u)
  from trigger_cases [of cfg sm s m b u] show ?thesis
  proof
    assume "snd (handleTestTrigger cfg sm s m b u) = (s, [])"
    then show ?thesis using ManualTrigger by (simp add: fresh_def)
  next
    assume "\<exists>zone. findZone (Zones cfg) (ID zone) = Some zone \<and> \<not> latched s (ID zone)
        \<and> snd (handleTestTrigger cfg sm s m b u) =
            (s\<lparr>triggered := (triggered s)(ID zone \<mapsto> True)\<rparr>,
             LogTestTrigger (ID zone) (Name zone) u # dispatch sm (alerts s) zone)"
    then obtain zone where z: "\<not> latched s (ID zone)"
      and e: "step cfg s x = (s\<lparr>triggered := (triggered s)(ID zone \<mapsto> True)\<rparr>,
             LogTestTrigger (ID zone) (Name zone) u # dispatch sm (alerts s) zone)"
      using ManualTrigger by auto
    show ?thesis
      unfolding fresh_def e using z
      by (auto simp: latched_def dispatch_latchRecord dispatch_alertFor)
  qed
qed

lemma run_Cons:
  "fst (run cfg s (x # xs)) = fst (run cfg (fst (step cfg s x)) xs)"
  "snd (run cfg s (x # xs)) = snd (step cfg s x) @ snd (run cfg (fst (step cfg s x)) xs)"
  by (simp_all add: case_prod_beta)

lemma run_alerts: "alerts (fst (run cfg s xs)) = alerts s"
  by (induction xs arbitrary: s) (simp_all add: run_Cons step_modes del: run.simps(2))

lemma run_latched:
  "latched s z \<Longrightarrow>
     latched (fst (run cfg s xs)) z
     \<and> filter (latchRecord z) (snd (run cfg s xs)) = []
     \<and> filter (alertFor z) (snd (run cfg s xs)) = []"
proof (induction xs arbitrary: s)
  case Nil
  then show ?case by simp
next
  case (Cons x xs)
  have nf: "\<not> fresh cfg s x z" using Cons.prems by (simp add: fresh_def)
  have l: "latched (fst (step cfg s x)) z"
    using step_counts [of cfg s x z] Cons.prems by simp
  have "length (filter (latchRecord z) (snd (step cfg s x))) = 0"
    "length (filter (alertFor z) (snd (step cfg s x))) = 0"
    using step_counts [of cfg s x z] nf by simp_all
  then have "filter (latchRecord z) (snd (step cfg s x)) = []"
    "filter (alertFor z) (snd (step cfg s x)) = []"
    by simp_all
  then show ?case using Cons.IH [OF l] by (simp add: run_Cons del: run.simps(2))
qed

lemma run_counts:
  "length (filter (latchRecord z) (snd (run cfg s xs))) \<le> 1
   \<and> length (filter (alertFor z) (snd (run cfg s xs))) \<le> length (alerts s)"
proof (induction xs arbitrary: s)
  case Nil
  show ?case by simp
next
  case (Cons x xs)
  let ?s1 = "fst (step cfg s x)"
  have a: "alerts ?s1 = alerts s" by (simp add: step_modes)
  show ?case
  proof (cases "latched ?s1 z")
    case True
    have "filter (latchRecord z) (snd (run cfg ?s1 xs)) = []
        \<and> filter (alertFor z) (snd (run cfg ?s1 xs)) = []"
      using run_latched [OF True] by simp
    moreover have "length (filter (latchRecord z) (snd (step cfg s x))) \<le> 1
        \<and> length (filter (alertFor z) (snd (step cfg s x))) \<le> length (alerts s)"
      using step_counts [of cfg s x z] by (simp split: if_splits)
    ultimately show ?thesis by (simp add: run_Cons del: run.simps(2))
  next
    case False
    then have "\<not> fresh cfg s x z" by (simp add: fresh_def)
    then have "length (filter (latchRecord z) (snd (step cfg s x))) = 0"
      "length (filter (alertFor z) (snd (step cfg s x))) = 0"
      using step_counts [of cfg s x z] by simp_all
    then show ?thesis using Cons.IH [of ?s1] a by (simp add: run_Cons del: run.simps(2))
  qed
qed

text \<open>
  Claim C1. In a session (poll ticks and manual trigger requests in any order and
  number, with any pin levels, and no arm or disarm request between them), once the
  latch of a zone is set it stays set, no further latch record is written for the zone
  and no alert handler is invoked for it. From any state, a session writes at most one
  latch record for a zone and invokes the handlers for it at most once each.
\<close>

theorem latch_at_most_once:
  "(latched s z \<longrightarrow>
      latched (fst (run cfg s xs)) z
      \<and> (\<forall>e \<in> set (snd (run cfg s xs)). \<not> latchRecord z e \<and> \<not> alertFor z e))
   \<and> length (filter (latchRecord z) (snd (run cfg s xs))) \<le> 1
   \<and> length (filter (alertFor z) (snd (run cfg s xs))) \<le> length (alerts s)"
proof -
  have "latched s z \<longrightarrow>
      latched (fst (run cfg s xs)) z
      \<and> (\<forall>e \<in> set (snd (run cfg s xs)). \<not> latchRecord z e \<and> \<not> alertFor z e)"
  proof
    assume "latched s z"
    then have r: "latched (fst (run cfg s xs)) z
        \<and> filter (latchRecord z) (snd (run cfg s xs)) = []
        \<and> filter (alertFor z) (snd (run cfg s xs)) = []"
      by (rule run_latched)
    then show "latched (fst (run cfg s xs)) z
      \<and> (\<forall>e \<in> set (snd (run cfg s xs)). \<not> latchRecord z e \<and> \<not> alertFor z e)"
      by (simp add: filter_empty_conv)
  qed
  then show ?thesis using run_counts [of z cfg s xs] by simp
qed

theorem latch_at_most_once_witness:
  "latched awayLatched 1
   \<and> latched (fst (run exampleConfig awayLatched [PollTick allHigh mailUp, PollTick allLow mailUp])) 1
   \<and> filter (latchRecord 1)
        (snd (run exampleConfig awayLatched [PollTick allHigh mailUp, PollTick allLow mailUp])) = []
   \<and> filter (alertFor 1)
        (snd (run exampleConfig awayLatched [PollTick allHigh mailUp, PollTick allLow mailUp])) = []
   \<and> snd (run exampleConfig awayLatched [PollTick allHigh mailUp, PollTick allLow mailUp]) =
        [ReadPin 17, ReadPin 27, LogTrigger 2 ''Hall'', AlertSend mailHandler zone2,
         AlertSend LogAlert zone2, ReadPin 17, ReadPin 27]"
proof -
  have l: "latched awayLatched 1"
    by (simp add: awayLatched_eq latched_def)
  from l latch_at_most_once [of awayLatched 1 exampleConfig
      "[PollTick allHigh mailUp, PollTick allLow mailUp]"]
  have "latched (fst (run exampleConfig awayLatched [PollTick allHigh mailUp, PollTick allLow mailUp])) 1
      \<and> (\<forall>e \<in> set (snd (run exampleConfig awayLatched
            [PollTick allHigh mailUp, PollTick allLow mailUp])).
          \<not> latchRecord 1 e \<and> \<not> alertFor 1 e)"
    by blast
  then show ?thesis using l example_session
    by (simp add: filter_empty_conv)
qed

section \<open>Alert dispatch\<close>

lemma dispatch_concat:
  "dispatch sm hs zone =
     concat (map (\<lambda>h. AlertSend h zone #
       (case Send sm h zone of None \<Rightarrow> [] | Some err \<Rightarrow> [LogHandlerError (HandlerName h) err])) hs)"
  by (induction hs) (auto split: option.splits)

lemma dispatch_errors:
  "h \<in> set hs \<Longrightarrow> Send sm h zone = Some err \<Longrightarrow>
     LogHandlerError (HandlerName h) err \<in> set (dispatch sm hs zone)"
  by (induction hs) (auto split: option.splits)

lemma initAlertHandlers_nonempty: "initAlertHandlers cfg \<noteq> []"
  by (simp add: initAlertHandlers_def Let_def)

lemma buildHandlers_map_filter: "buildHandlers acs = List.map_filter handlerOf acs"
  by (induction acs) (simp_all add: List.map_filter_def handlerOf_def Let_def)

lemma initAlertHandlers_eq:
  "initAlertHandlers cfg =
     (if List.map_filter handlerOf (Alerts cfg) = [] then [LogAlert]
      else List.map_filter handlerOf (Alerts cfg))"
  by (simp add: initAlertHandlers_def buildHandlers_map_filter Let_def List.map_filter_def)

lemma handleArm_alerts: "alerts (fst (snd (handleArm cfg s m b u))) = alerts s"
  by (simp add: handleArm_def clearTo_def Let_def split: option.splits)

lemma handleDisarm_alerts: "alerts (fst (snd (handleDisarm s m u))) = alerts s"
  by (simp add: handleDisarm_def clearTo_def)

lemma reachable_alerts: "reachable s \<Longrightarrow> \<exists>cfg. alerts s = initAlertHandlers cfg"
proof (induction rule: reachable.induct)
  case (reach_init cfg)
  show ?case by (auto simp: NewServer_def)
next
  case (reach_arm s cfg meth body user)
  then show ?case by (simp add: handleArm_alerts)
next
  case (reach_disarm s meth user)
  then show ?case by (simp add: handleDisarm_alerts)
next
  case (reach_step s cfg x)
  then show ?case by (simp add: step_modes)
qed

lemma reachable_alerts_nonempty: "reachable s \<Longrightarrow> alerts s \<noteq> []"
  using reachable_alerts initAlertHandlers_nonempty by metis

text \<open>
  Claim C7. Alert dispatch for a freshly latched zone invokes every configured alert
  channel in configuration order: the dispatch loop invokes every handler of the list
  in order, a failure of one is written to the event log after its invocation and the
  loop goes on. A zone latched afresh by a poll tick in an \<open>Armed\<close> state or by a trigger
  request in \<open>TestSoft\<close> gets this loop over the server's handlers; the latch stays set
  and the request is answered with success whatever the handlers return. In
  \<open>TestWiring\<close> the dispatch step does not run: a zone latched afresh there gets its log
  record only. The server's handlers are those built from the configured alerts of
  type \<open>log\<close> and \<open>email\<close>, in the order of the configuration; when there are none, and
  so when no alert is configured, they are the one log handler.
\<close>

theorem alert_dispatch_contract:
  assumes "reachable s"
  shows
  "dispatch sm hs zone =
     concat (map (\<lambda>h. AlertSend h zone #
       (case Send sm h zone of None \<Rightarrow> [] | Some err \<Rightarrow> [LogHandlerError (HandlerName h) err])) hs)
   \<and> filter isSend (dispatch sm hs zone) = map (\<lambda>h. AlertSend h zone) hs
   \<and> (\<forall>h \<in> set hs. \<forall>err. Send sm h zone = Some err \<longrightarrow>
        LogHandlerError (HandlerName h) err \<in> set (dispatch sm hs zone))
   \<and> (opState s = Armed p \<and> polled cfg zid = Some zone \<and> zoneTriggered rp zone \<and> \<not> latched s zid \<longrightarrow>
        pollZone cfg rp sm s zid =
          (s\<lparr>triggered := (triggered s)(zid \<mapsto> True)\<rparr>,
           ReadPin (Pin zone) # LogTrigger zid (Name zone) # dispatch sm (alerts s) zone)
        \<and> latched (fst (pollZone cfg rp sm s zid)) zid)
   \<and> (opState s = TestWiring \<and> polled cfg zid = Some zone \<and> zoneTriggered rp zone \<and> \<not> latched s zid \<longrightarrow>
        pollZone cfg rp sm s zid =
          (s\<lparr>triggered := (triggered s)(zid \<mapsto> True)\<rparr>,
           [ReadPin (Pin zone), LogTrigger zid (Name zone)]))
   \<and> (opState s = TestSoft \<and> findZone (Zones cfg) zid = Some zone \<and> \<not> latched s zid \<longrightarrow>
        handleTestTrigger cfg sm s ''POST'' (Some zid) user =
          (NoContent, s\<lparr>triggered := (triggered s)(zid \<mapsto> True)\<rparr>,
           LogTestTrigger zid (Name zone) user # dispatch sm (alerts s) zone)
        \<and> latched (fst (snd (handleTestTrigger cfg sm s ''POST'' (Some zid) user))) zid)
   \<and> (Alerts cfg = [] \<longrightarrow> initAlertHandlers cfg = [LogAlert])
   \<and> initAlertHandlers cfg \<noteq> []
   \<and> alerts (NewServer cfg) = initAlertHandlers cfg
   \<and> initAlertHandlers cfg =
       (if List.map_filter handlerOf (Alerts cfg) = [] then [LogAlert]
        else List.map_filter handlerOf (Alerts cfg))
   \<and> alerts s \<noteq> []"
proof -
  have c: "consistent s" using assms by (rule reachable_consistent)
  have ne: "alerts s \<noteq> []" using assms by (rule reachable_alerts_nonempty)
  note os = consistent_opState [OF c] opState_TestSoft [OF c]
  have a: "opState s = Armed p \<and> polled cfg zid = Some zone \<and> zoneTriggered rp zone \<and> \<not> latched s zid \<longrightarrow>
        pollZone cfg rp sm s zid =
          (s\<lparr>triggered := (triggered s)(zid \<mapsto> True)\<rparr>,
           ReadPin (Pin zone) # LogTrigger zid (Name zone) # dispatch sm (alerts s) zone)
        \<and> latched (fst (pollZone cfg rp sm s zid)) zid"
    by (simp add: os pollZone_eq latched_def)
  have w: "opState s = TestWiring \<and> polled cfg zid = Some zone \<and> zoneTriggered rp zone \<and> \<not> latched s zid \<longrightarrow>
        pollZone cfg rp sm s zid =
          (s\<lparr>triggered := (triggered s)(zid \<mapsto> True)\<rparr>,
           [ReadPin (Pin zone), LogTrigger zid (Name zone)])"
    by (simp add: os pollZone_eq)
  have t: "opState s = TestSoft \<and> findZone (Zones cfg) zid = Some zone \<and> \<not> latched s zid \<longrightarrow>
        handleTestTrigger cfg sm s ''POST'' (Some zid) user =
          (NoContent, s\<lparr>triggered := (triggered s)(zid \<mapsto> True)\<rparr>,
           LogTestTrigger zid (Name zone) user # dispatch sm (alerts s) zone)
        \<and> latched (fst (snd (handleTestTrigger cfg sm s ''POST'' (Some zid) user))) zid"
    using findZone_Some [of "Zones cfg" zid zone]
    by (auto simp: os handleTestTrigger_def latched_def)
  have e: "\<forall>h \<in> set hs. \<forall>err. Send sm h zone = Some err \<longrightarrow>
        LogHandlerError (HandlerName h) err \<in> set (dispatch sm hs zone)"
    using dispatch_errors by blast
  have d: "Alerts cfg = [] \<longrightarrow> initAlertHandlers cfg = [LogAlert]"
    by (simp add: initAlertHandlers_def)
  have n: "alerts (NewServer cfg) = initAlertHandlers cfg"
    by (simp add: NewServer_def)
  show ?thesis
    by (rule conjI [OF dispatch_concat conjI [OF dispatch_sends conjI [OF e conjI [OF a
        conjI [OF w conjI [OF t conjI [OF d conjI [OF initAlertHandlers_nonempty
        conjI [OF n conjI [OF initAlertHandlers_eq ne]]]]]]]]]])
qed

theorem alert_dispatch_contract_witness:
  "reachable (armedServer ''Away'') \<and> opState (armedServer ''Away'') = Armed ''Away''
   \<and> polled exampleConfig 1 = Some zone1 \<and> zoneTriggered allLow zone1
   \<and> \<not> latched (armedServer ''Away'') 1
   \<and> Send mailDown mailHandler zone1 = Some ''connection refused''
   \<and> pollZone exampleConfig allLow mailDown (armedServer ''Away'') 1 =
       ((armedServer ''Away'')\<lparr>triggered := [1 \<mapsto> True]\<rparr>,
        [ReadPin 17, LogTrigger 1 ''Front Door'', AlertSend mailHandler zone1,
         LogHandlerError ''email'' ''connection refused'', AlertSend LogAlert zone1])
   \<and> latched (fst (pollZone exampleConfig allLow mailDown (armedServer ''Away'') 1)) 1
   \<and> Alerts (exampleConfig\<lparr>Alerts := []\<rparr>) = []
   \<and> initAlertHandlers (exampleConfig\<lparr>Alerts := []\<rparr>) = [LogAlert]"
proof -
  let ?s = "armedServer ''Away''"
  have r: "reachable ?s" by (rule armedServer_reachable)
  have o: "opState ?s = Armed ''Away''"
    by (simp add: opState_def armedServer_Away)
  have l: "\<not> latched ?s 1" by (simp add: latched_def armedServer_Away)
  have m: "Send mailDown mailHandler zone1 = Some ''connection refused''"
    by (simp add: mailHandler_def mailDown_def)
  have al: "alerts ?s = [mailHandler, LogAlert]" "triggered ?s = Map.empty"
    by (simp_all add: armedServer_Away)
  have hn: "HandlerName mailHandler = ''email''" by (simp add: mailHandler_def)
  have em: "Alerts (exampleConfig\<lparr>Alerts := []\<rparr>) = []" by simp
  note T = alert_dispatch_contract [OF r, where sm = mailDown and hs = "alerts ?s"
      and zone = zone1 and p = "''Away''" and cfg = exampleConfig and zid = 1 and rp = allLow]
  note U = alert_dispatch_contract [OF r, where cfg = "exampleConfig\<lparr>Alerts := []\<rparr>"]
  from T o l example_polled(1) example_levels(1)
  have p: "pollZone exampleConfig allLow mailDown ?s 1 =
          (?s\<lparr>triggered := (triggered ?s)(1 \<mapsto> True)\<rparr>,
           ReadPin (Pin zone1) # LogTrigger 1 (Name zone1) # dispatch mailDown (alerts ?s) zone1)
        \<and> latched (fst (pollZone exampleConfig allLow mailDown ?s 1)) 1"
    by blast
  from T have d: "dispatch mailDown (alerts ?s) zone1 =
     concat (map (\<lambda>h. AlertSend h zone1 #
       (case Send mailDown h zone1 of None \<Rightarrow> []
        | Some err \<Rightarrow> [LogHandlerError (HandlerName h) err])) (alerts ?s))"
    by blast
  from U em have i: "initAlertHandlers (exampleConfig\<lparr>Alerts := []\<rparr>) = [LogAlert]"
    by blast
  show ?thesis
    using r o l m p d i example_polled(1) example_levels(1)
    by (simp add: al hn zone_fields latched_def)
qed

text \<open>
  The wiring test on the example: with an email and a log handler configured, zone 2
  goes high in \<open>TestWiring\<close> and is latched; its log record is written and the dispatch
  step does not run.
\<close>

lemma example_poll_wiring:
  "alerts (armedServer ''TestWiring'') = [mailHandler, LogAlert]
   \<and> \<not> latched (armedServer ''TestWiring'') 2
   \<and> pollSensors exampleConfig allHigh mailUp (armedServer ''TestWiring'') =
       ((armedServer ''TestWiring'')\<lparr>triggered := [2 \<mapsto> True]\<rparr>,
        [ReadPin 17, ReadPin 27, LogTrigger 2 ''Hall''])
   \<and> latched ((armedServer ''TestWiring'')\<lparr>triggered := [2 \<mapsto> True]\<rparr>) 2"
  by (simp add: pollSensors_def activeIDs_def armedServer_TestWiring exampleConfig_def
      pollZone_eq latched_def polled_def zoneTriggered_def zone1_def zone2_def zone3_def
      allHigh_def Let_def str_defs)

section \<open>Status snapshot\<close>

text \<open>
  Claim C9 at a status request that runs while a disarm request is served: the server
  is armed in Away with zone 1 latched when \<open>handleStatus\<close> goes through its loops, and
  disarmed when it reads the mode. The response has the mode of after the transition
  and the latches of before it, and is the status of neither state.
\<close>

theorem status_mixes_transition:
  "latched awayLatched 1
   \<and> handleStatus exampleConfig awayLatched =
       \<lparr>StatusMode = ''Away'', StatusTriggered = {1},
        StatusZones = [ZoneInfo 1 ''Front Door'' ''contact'' 17 True True,
                       ZoneInfo 2 ''Hall'' ''pir'' 27 True False,
                       ZoneInfo 3 ''Garage'' ''contact'' 22 False False]\<rparr>
   \<and> handleStatus exampleConfig (fst (snd (handleDisarm awayLatched ''POST'' ''admin''))) =
       \<lparr>StatusMode = ''Disarmed'', StatusTriggered = {},
        StatusZones = [ZoneInfo 1 ''Front Door'' ''contact'' 17 True False,
                       ZoneInfo 2 ''Hall'' ''pir'' 27 True False,
                       ZoneInfo 3 ''Garage'' ''contact'' 22 False False]\<rparr>
   \<and> handleStatusAt exampleConfig awayLatched (fst (snd (handleDisarm awayLatched ''POST'' ''admin''))) =
       \<lparr>StatusMode = ''Disarmed'', StatusTriggered = {1},
        StatusZones = [ZoneInfo 1 ''Front Door'' ''contact'' 17 True True,
                       ZoneInfo 2 ''Hall'' ''pir'' 27 True False,
                       ZoneInfo 3 ''Garage'' ''contact'' 22 False False]\<rparr>"
  by (simp add: handleStatus_def handleStatusAt_def handleDisarm_def clearTo_def awayLatched_eq
      latched_def exampleConfig_def zone1_def zone2_def zone3_def)

end
